theory Spec2Isabelle
  imports Main "HOL-Library.Sublist"
begin

section \<open>Data model\<close>

text \<open>
  A catalog entry, as \<open>coderelay.py\<close> reads it: the keys \<open>name\<close>, \<open>desc\<close>,
  \<open>languages\<close>, \<open>frameworks\<close>, \<open>git\<close> and \<open>task.desc\<close> of a parsed JSON object.
  Tag collections are JSON arrays, hence lists (order matters to the framework loop).
\<close>

record project =
  name :: string
  desc :: string
  languages :: "string list"
  frameworks :: "string list"
  git :: string
  task_desc :: string

text \<open>The preference file: the dict \<open>config\<close> of \<open>user_prefs\<close> and \<open>list_repos\<close>.\<close>

record config =
  languages :: "string list"
  frameworks :: "string list"
  excluded_frameworks :: "string list"

section \<open>The matcher (body of the loop of \<open>list_repos\<close>, lines 84--98)\<close>

text \<open>
  The loop state is the pair \<open>(match, match_color)\<close>. The language loop breaks at the
  first language that is not in the preferences.
\<close>

fun language_loop :: "string list \<Rightarrow> config \<Rightarrow> string \<times> string \<Rightarrow> string \<times> string" where
  "language_loop [] cfg mc = mc"
| "language_loop (language # rest) cfg mc =
     (if language \<notin> set (config.languages cfg) then (''new language'', ''red'')
      else language_loop rest cfg mc)"

text \<open>
  The framework loop breaks on an excluded framework, and goes on after a new one.
\<close>

fun framework_loop :: "string list \<Rightarrow> config \<Rightarrow> string \<times> string \<Rightarrow> string \<times> string" where
  "framework_loop [] cfg mc = mc"
| "framework_loop (framework # rest) cfg (m, col) =
     (if framework \<in> set (excluded_frameworks cfg) \<and> m \<noteq> ''new language''
      then (''excluded framework'', ''red'')
      else if framework \<notin> set (config.frameworks cfg) \<and> m \<noteq> ''new language''
      then framework_loop rest cfg (''new framework'', ''yellow'')
      else framework_loop rest cfg (m, col))"

definition classify :: "project \<Rightarrow> config \<Rightarrow> string \<times> string" where
  "classify p cfg =
     framework_loop (project.frameworks p) cfg
       (language_loop (project.languages p) cfg (''good match'', ''green''))"

definition verdict :: "project \<Rightarrow> config \<Rightarrow> string" where
  "verdict p cfg = fst (classify p cfg)"

section \<open>Strings, as Python handles them\<close>

text \<open>\<open>s.split(sep)\<close> for a one-character separator: never empty, one more piece than separators.\<close>

fun split_on :: "char \<Rightarrow> string \<Rightarrow> string list" where
  "split_on sep [] = [[]]"
| "split_on sep (c # cs) =
     (if c = sep then [] # split_on sep cs
      else (case split_on sep cs of
              [] \<Rightarrow> [[c]]
            | piece # pieces \<Rightarrow> (c # piece) # pieces))"






text \<open>Characters outside ASCII in the messages, as their UTF-8 bytes.\<close>

definition check_mark :: string where
  "check_mark = [CHR 0xE2, CHR 0x9C, CHR 0x85]"

definition hourglass :: string where
  "hourglass = [CHR 0xE2, CHR 0x8F, CHR 0xB3]"

definition grinning_face :: string where
  "grinning_face = [CHR 0xF0, CHR 0x9F, CHR 0x98, CHR 0x80]"

section \<open>The file system\<close>

text \<open>
  Paths are the strings the program builds by concatenation. A path names a directory,
  a regular file with its text, or nothing.
\<close>

type_synonym path = string

record filesystem =
  dirs :: "path set"
  files :: "path \<rightharpoonup> string"

datatype error =
    FileNotFoundError
  | IsADirectoryError
  | NotADirectoryError
  | FileExistsError
  | UnicodeDecodeError
  | JSONDecodeError
  | IndexError
  | FetchError

text \<open>\<open>os.path.exists\<close>.\<close>

definition path_exists :: "filesystem \<Rightarrow> path \<Rightarrow> bool" where
  "path_exists fsys p = (p \<in> dirs fsys \<or> p \<in> dom (files fsys))"


text \<open>The proper ancestors of a path: its prefixes that end before a slash.\<close>

definition ancestors :: "path \<Rightarrow> path list" where
  "ancestors p = map (\<lambda>i. take i p) (filter (\<lambda>i. p ! i = CHR ''/'') [1..<length p])"

text \<open>
  \<open>os.makedirs(p, exist_ok=True)\<close>. An existing directory is left alone. Otherwise a
  regular file at an ancestor makes the \<open>mkdir\<close> below it raise \<open>NotADirectoryError\<close>,
  a regular file at \<open>p\<close> itself \<open>FileExistsError\<close>; else the directory and its ancestors
  exist afterwards.
\<close>

definition add_dirs :: "filesystem \<Rightarrow> path \<Rightarrow> filesystem" where
  "add_dirs fsys p = fsys\<lparr>dirs := dirs fsys \<union> {p} \<union> set (ancestors p)\<rparr>"

definition makedirs :: "filesystem \<Rightarrow> path \<Rightarrow> error + filesystem" where
  "makedirs fsys p =
     (if p \<in> dirs fsys then Inr fsys
      else if list_ex (\<lambda>a. a \<notin> dirs fsys \<and> files fsys a \<noteq> None) (ancestors p)
      then Inl NotADirectoryError
      else if files fsys p \<noteq> None then Inl FileExistsError
      else Inr (add_dirs fsys p))"

text \<open>
  \<open>shutil.rmtree(p)\<close>: on a directory, \<open>p\<close> and everything below it is gone; on a
  regular file it raises \<open>NotADirectoryError\<close>, on nothing \<open>FileNotFoundError\<close>.
\<close>

definition below :: "path \<Rightarrow> path \<Rightarrow> bool" where
  "below p q = (q = p \<or> prefix (p @ ''/'') q)"

definition remove_below :: "filesystem \<Rightarrow> path \<Rightarrow> filesystem" where
  "remove_below fsys p =
     fsys\<lparr>dirs := Set.filter (\<lambda>d. \<not> below p d) (dirs fsys),
          files := (\<lambda>q. if below p q then None else files fsys q)\<rparr>"

definition rmtree :: "filesystem \<Rightarrow> path \<Rightarrow> error + filesystem" where
  "rmtree fsys p =
     (if p \<in> dirs fsys then Inr (remove_below fsys p)
      else if files fsys p \<noteq> None then Inl NotADirectoryError
      else Inl FileNotFoundError)"

text \<open>
  \<open>open(p, "w")\<close> and \<open>open(p, "a")\<close> followed by one write. The program writes ASCII
  only, and only where it has just made the directory or read the file.
\<close>

definition write_file :: "filesystem \<Rightarrow> path \<Rightarrow> string \<Rightarrow> filesystem" where
  "write_file fsys p text = fsys\<lparr>files := (files fsys)(p \<mapsto> text)\<rparr>"

definition append_file :: "filesystem \<Rightarrow> path \<Rightarrow> string \<Rightarrow> filesystem" where
  "append_file fsys p text =
     fsys\<lparr>files := (files fsys)(p \<mapsto> (case files fsys p of None \<Rightarrow> text | Some old \<Rightarrow> old @ text))\<rparr>"

section \<open>The environment and the observable world\<close>

text \<open>
  What the program gets from outside: the directories of \<open>platformdirs\<close>, the outcome
  of the HTTP request and decoding in \<open>fetch_repos\<close> (\<open>None\<close> when any of it raises),
  whether \<open>shutil.which("git")\<close> finds git, what a git subprocess does to the file
  system (arguments, working directory), which byte strings decode in the encoding
  of the locale, and the \<open>ujson\<close> library on the two kinds of
  document the program stores (\<open>None\<close> when \<open>ujson.load\<close> raises).
\<close>

record env =
  user_config_dir :: string
  user_documents_dir :: string
  fetched :: "project list option"
  which_git :: bool
  run_git :: "string list \<Rightarrow> path \<Rightarrow> filesystem \<Rightarrow> filesystem"
  decodes :: "string \<Rightarrow> bool"
  dump_config :: "config \<Rightarrow> string"
  load_config :: "string \<Rightarrow> config option"
  dump_project :: "project \<Rightarrow> string"
  load_project :: "string \<Rightarrow> project option"

text \<open>
  \<open>open(p, "r")\<close> followed by reading the whole file, as the program does itself for
  \<open>.gitignore\<close> and \<open>ujson.load\<close> does for the JSON files. A file holds bytes; reading
  raises \<open>UnicodeDecodeError\<close> when they do not decode. The text read is identified
  with its bytes.
\<close>

definition read_file :: "env \<Rightarrow> filesystem \<Rightarrow> path \<Rightarrow> error + string" where
  "read_file E fsys p =
     (if p \<in> dirs fsys then Inl IsADirectoryError
      else case files fsys p of
             None \<Rightarrow> Inl FileNotFoundError
           | Some bytes \<Rightarrow> if decodes E bytes then Inr bytes else Inl UnicodeDecodeError)"

datatype style = Fg string | Bold | Dim

datatype event =
    Echo string
  | Secho string style
  | Prompt string
  | HttpGet string
  | Call "string list"
  | OpenFile path

text \<open>
  What can be observed of a run: the file system, the working directory and the
  sequence of outputs, prompts, requests and subprocess calls. The answers the user
  gives to the prompts are arguments of the commands.
\<close>

record world =
  fs :: filesystem
  cwd :: path
  trace :: "event list"

type_synonym outcome = "error option \<times> world"

definition emit :: "world \<Rightarrow> event \<Rightarrow> world" where
  "emit w e = w\<lparr>trace := trace w @ [e]\<rparr>"

text \<open>\<open>subprocess.call(args)\<close>: the call is observed and git acts on the file system.\<close>

definition call :: "env \<Rightarrow> string list \<Rightarrow> world \<Rightarrow> world" where
  "call E args w = emit (w\<lparr>fs := run_git E args (cwd w) (fs w)\<rparr>) (Call args)"

text \<open>The subprocess calls of a trace, in order.\<close>

fun calls :: "event list \<Rightarrow> string list list" where
  "calls [] = []"
| "calls (Call args # es) = args # calls es"
| "calls (e # es) = calls es"

section \<open>The commands\<close>

definition catalog_url :: string where
  "catalog_url =
     ''https://api.github.com/repos/KTibow/code-relay/contents/data/available_projects.json''"

text \<open>\<open>fetch_repos\<close> (the spinner thread is decoration and is left out).\<close>

definition fetch_repos :: "env \<Rightarrow> world \<Rightarrow> project list option \<times> world" where
  "fetch_repos E w = (fetched E, emit w (HttpGet catalog_url))"

definition default_config :: config where
  "default_config = \<lparr>config.languages = [], config.frameworks = [], excluded_frameworks = []\<rparr>"

definition config_path_of :: "env \<Rightarrow> path" where
  "config_path_of E = user_config_dir E @ ''/coderelay/coderelay.json''"


text \<open>Lines 53--54: read the preference file.\<close>

definition read_config :: "env \<Rightarrow> filesystem \<Rightarrow> error + config" where
  "read_config E fsys =
     (case read_file E fsys (config_path_of E) of
        Inl e \<Rightarrow> Inl e
      | Inr text \<Rightarrow>
          (case load_config E text of
             None \<Rightarrow> Inl JSONDecodeError
           | Some cfg \<Rightarrow> Inr cfg))"


text \<open>One round of the loop of \<open>list_repos\<close>: classify and print.\<close>

definition print_project :: "config \<Rightarrow> world \<Rightarrow> project \<Rightarrow> world" where
  "print_project cfg w p =
     emit w (Secho (name p @ '', '' @ desc p @ '' '' @ fst (classify p cfg))
               (Fg (snd (classify p cfg))))"

definition list_repos :: "env \<Rightarrow> world \<Rightarrow> outcome" where
  "list_repos E w =
     (case fetch_repos E w of
        (None, w1) \<Rightarrow> (Some FetchError, w1)
      | (Some available_projects, w1) \<Rightarrow>
          if \<not> path_exists (fs w1) (config_path_of E)
          then (None, emit w1 (Echo ''Please run `coderelay user-prefs` to configure your preferences.''))
          else (case read_config E (fs w1) of
                  Inl e \<Rightarrow> (Some e, w1)
                | Inr cfg \<Rightarrow>
                    (None, emit (foldl (print_project cfg) w1 available_projects)
                       (Echo ''Get started on one by running `coderelay start-project <project-name>`.''))))"

definition gitignore_rule :: string where
  "gitignore_rule = [CHR 0x0A] @ ''# Code Relay'' @ [CHR 0x0A] @ ''coderelay.json'' @ [CHR 0x0A]"

text \<open>Lines 145--148 of \<open>start_project\<close>.\<close>

definition update_gitignore :: "env \<Rightarrow> path \<Rightarrow> filesystem \<Rightarrow> error + filesystem" where
  "update_gitignore E project_path fsys =
     (case read_file E fsys (project_path @ ''/.gitignore'') of
        Inl e \<Rightarrow> Inl e
      | Inr text \<Rightarrow>
          Inr (if \<not> sublist ''coderelay.json'' text
               then append_file fsys (project_path @ ''/.gitignore'') gitignore_rule
               else fsys))"

text \<open>Lines 135--141: create the target directory and clone into it.\<close>

definition clone_project :: "env \<Rightarrow> project \<Rightarrow> path \<Rightarrow> world \<Rightarrow> error + world" where
  "clone_project E p project_path w =
     (case makedirs (fs w) project_path of
        Inl e \<Rightarrow> Inl e
      | Inr made \<Rightarrow> Inr (call E [''git'', ''clone'', git p, project_path] (w\<lparr>fs := made\<rparr>)))"

text \<open>
  Lines 132--163 of \<open>start_project\<close>, after the checks; \<open>open_now\<close> is the user's answer
  to the last prompt.
\<close>

definition download_project :: "env \<Rightarrow> project \<Rightarrow> string \<Rightarrow> path \<Rightarrow> bool \<Rightarrow> world \<Rightarrow> outcome" where
  "download_project E p project_name project_path open_now w =
     (case clone_project E p project_path w of
        Inl e \<Rightarrow> (Some e, w)
      | Inr w1 \<Rightarrow>
        case update_gitignore E project_path (fs w1) of
           Inl e \<Rightarrow> (Some e, w1)
         | Inr fsys \<Rightarrow>
             (let w2 = w1\<lparr>fs := write_file fsys (project_path @ ''/coderelay.json'') (dump_project E p)\<rparr>;
                  w3 = emit w2 (Echo (check_mark @ '' Project '' @ project_name @ '' downloaded to '' @ project_path @ ''.''));
                  w4 = emit w3 (Echo []);
                  w5 = emit w4 (Echo (''Remember, have fun in your 15 minutes! '' @ grinning_face));
                  w6 = emit w5 (Echo (''Once you'' @ [CHR 0x27] @ ''re done, run `coderelay publish-changes '' @ project_name @ ''`.''));
                  w7 = emit w6 (Prompt ''Do you want to open the project now (y/n)'')
              in (None, if open_now then emit w7 (OpenFile project_path) else w7)))"

definition project_path_of :: "env \<Rightarrow> string \<Rightarrow> path" where
  "project_path_of E project_name = user_documents_dir E @ ''/code-relay/'' @ project_name"

text \<open>
  Lines 113--130 of \<open>start_project\<close>: the fetch and the checks. \<open>Inl\<close> is an early end
  of the command, \<open>Inr\<close> the project found and the world in which the download starts;
  \<open>delete\<close> is the user's answer when asked whether to delete an existing directory.
\<close>

definition start_checks :: "env \<Rightarrow> string \<Rightarrow> bool \<Rightarrow> world \<Rightarrow> outcome + project \<times> world" where
  "start_checks E project_name delete w =
     (case fetch_repos E w of
        (None, w1) \<Rightarrow> Inl (Some FetchError, w1)
      | (Some available_projects, w1) \<Rightarrow>
          (let project = find (\<lambda>p. name p = project_name) available_projects;
               project_path = project_path_of E project_name
           in if \<not> which_git E then Inl (None, emit w1 (Echo ''Please install git first.''))
              else case project of
                     None \<Rightarrow> Inl (None, emit w1 (Echo (''Could not find project '' @ project_name @ ''.'')))
                   | Some p \<Rightarrow>
                       if path_exists (fs w1) project_path
                       then (let w2 = emit w1 (Prompt (''Project at '' @ project_path @ '' already exists. Delete it (y/n)''))
                             in if delete
                                then (case rmtree (fs w2) project_path of
                                        Inl e \<Rightarrow> Inl (Some e, w2)
                                      | Inr removed \<Rightarrow> Inr (p, w2\<lparr>fs := removed\<rparr>))
                                else Inl (None, emit w2 (Echo ''Aborting.'')))
                       else Inr (p, w1)))"

definition start_project :: "env \<Rightarrow> string \<Rightarrow> bool \<Rightarrow> bool \<Rightarrow> world \<Rightarrow> outcome" where
  "start_project E project_name delete open_now w =
     (case start_checks E project_name delete w of
        Inl early \<Rightarrow> early
      | Inr (p, w1) \<Rightarrow>
          download_project E p project_name (project_path_of E project_name) open_now w1)"

text \<open>Lines 186--197 of \<open>publish_changes\<close>: the explanation and the prompt for the fork.\<close>

definition explain_fork :: "project \<Rightarrow> world \<Rightarrow> world" where
  "explain_fork project_config w =
     foldl emit w
       [Secho ''What is a fork?'' Bold,
        Echo ''Only the authors of the project can publish changes, so you need to fork the project first.'',
        Secho ''How do you fork?'' Bold,
        Echo (''To fork the project, first open it online at '' @ git project_config @ ''.''),
        Echo (''Then, click the '' @ [CHR 0x27] @ ''Fork'' @ [CHR 0x27] @ '' button.''),
        Echo ''coderelay will publish your changes to your fork.'',
        Echo [],
        Prompt ''What is the URL of your fork (example: https://github.com/username/project-name)'']"

text \<open>Lines 199--209: change directory, set the remote, stage, show the staged files.\<close>

definition stage_changes :: "env \<Rightarrow> path \<Rightarrow> string \<Rightarrow> world \<Rightarrow> world" where
  "stage_changes E project_path project_remote_url w =
     (let w1 = w\<lparr>cwd := project_path\<rparr>;
          w2 = call E [''git'', ''remote'', ''add'', ''fork'', project_remote_url] w1;
          w3 = call E [''git'', ''remote'', ''set-url'', ''fork'', project_remote_url] w2;
          w4 = call E [''git'', ''add'', ''.''] w3;
          w5 = emit w4 (Secho ''Files changed:'' Bold)
      in call E [''git'', ''diff'', ''--staged'', ''--name-only''] w5)"

text \<open>Lines 214--222: commit, push, and the comparison link.\<close>

definition upload :: "env \<Rightarrow> project \<Rightarrow> string \<Rightarrow> world \<Rightarrow> outcome" where
  "upload E project_config project_remote_url w =
     (let w1 = emit w (Echo (hourglass @ '' Uploading your code...''));
          w2 = call E [''git'', ''commit'', ''-m'', ''Code Relay'', ''-m'', task_desc project_config] w1;
          w3 = call E [''git'', ''push'', ''fork''] w2;
          w4 = emit w3 (Echo (check_mark @ '' Your code has been uploaded.''));
          w5 = emit w4 (Echo (''Now, you need to tell code-relay that you'' @ [CHR 0x27] @ ''re done.''));
          w6 = emit w5 (Echo (''Go to the link below, and click '' @ [CHR 0x27] @ ''Create pull request'' @ [CHR 0x27] @ '' twice.''));
          pieces = split_on (CHR ''/'') project_remote_url
      in if 3 < length pieces
         then (None, emit w6 (Echo (git project_config @ ''/compare/main...'' @ pieces ! 3 @ '':main'')))
         else (Some IndexError, w6))"

text \<open>
  \<open>publish_changes\<close>; \<open>project_remote_url\<close> is the fork URL the user types and
  \<open>confirm\<close> the answer to "Do these changes look correct?".
\<close>

definition publish_changes :: "env \<Rightarrow> string \<Rightarrow> string \<Rightarrow> bool \<Rightarrow> world \<Rightarrow> outcome" where
  "publish_changes E project_name project_remote_url confirm w =
     (let project_path = project_path_of E project_name;
          project_config_path = project_path @ ''/coderelay.json''
      in if \<not> path_exists (fs w) project_path
         then (None, emit w (Echo (''Could not find project '' @ project_name @ ''.'')))
         else if \<not> which_git E then (None, emit w (Echo ''Please install git first.''))
         else if \<not> path_exists (fs w) project_config_path
         then (None, emit w (Echo ''Could not find project config.''))
         else (case read_file E (fs w) project_config_path of
                 Inl e \<Rightarrow> (Some e, w)
               | Inr text \<Rightarrow>
                   (case load_project E text of
                      None \<Rightarrow> (Some JSONDecodeError, w)
                    | Some project_config \<Rightarrow>
                        (let w1 = explain_fork project_config w;
                             w2 = stage_changes E project_path project_remote_url w1;
                             w3 = emit w2 (Prompt ''Do these changes look correct? (y/n)'')
                         in if \<not> confirm then (None, emit w3 (Echo ''Aborting.''))
                            else upload E project_config project_remote_url w3))))"

section \<open>Counting entries\<close>


section \<open>Example inputs\<close>

definition example_config :: config where
  "example_config =
     \<lparr>config.languages = [''python''], config.frameworks = [''flask''],
      excluded_frameworks = [''django'']\<rparr>"

definition example_project :: "string list \<Rightarrow> string list \<Rightarrow> project" where
  "example_project ls fws =
     \<lparr>name = ''foo'', desc = ''d'', project.languages = ls, project.frameworks = fws,
      git = ''https://example.com/foo.git'', task_desc = ''t''\<rparr>"

definition default_config_text :: string where
  \<open>default_config_text = ''{"languages":[],"frameworks":[],"excluded_frameworks":[]}''\<close>

text \<open>A git that, on \<open>clone\<close>, leaves a \<open>.gitignore\<close> in the target and does nothing else.\<close>

definition example_git :: "string list \<Rightarrow> path \<Rightarrow> filesystem \<Rightarrow> filesystem" where
  "example_git args dir fsys =
     (if take 2 args = [''git'', ''clone''] \<and> length args = 4
      then write_file fsys (args ! 3 @ ''/.gitignore'') ''node_modules''
      else fsys)"

text \<open>The encoding of a locale that knows ASCII only.\<close>

definition ascii_only :: "string \<Rightarrow> bool" where
  "ascii_only bytes = list_all (\<lambda>c. (of_char c :: nat) < 128) bytes"

definition example_env :: env where
  "example_env =
     \<lparr>user_config_dir = ''/home/u/.config'',
      user_documents_dir = ''/home/u/Documents'',
      fetched = Some [example_project [''python''] []],
      which_git = True,
      run_git = example_git,
      decodes = ascii_only,
      dump_config = (\<lambda>cfg. default_config_text),
      load_config = (\<lambda>text. if text = default_config_text then Some default_config else None),
      dump_project = (\<lambda>p. name p),
      load_project = (\<lambda>text. if text = ''foo'' then Some (example_project [''python''] []) else None)\<rparr>"

definition empty_world :: world where
  "empty_world = \<lparr>fs = \<lparr>dirs = {}, files = Map.empty\<rparr>, cwd = ''/'', trace = []\<rparr>"


text \<open>A world in which the workspace of project \<open>foo\<close> is already there.\<close>

definition workspace_world :: world where
  "workspace_world =
     \<lparr>fs = \<lparr>dirs = {''/home/u/Documents/code-relay/foo''},
            files = [''/home/u/Documents/code-relay/foo/coderelay.json'' \<mapsto> ''foo'']\<rparr>,
      cwd = ''/'', trace = []\<rparr>"





section \<open>Properties of the matcher\<close>

lemma language_loop_all_known:
  "set ls \<subseteq> set (config.languages cfg) \<Longrightarrow> language_loop ls cfg mc = mc"
  by (induction ls) auto

lemma language_loop_new:
  "\<not> set ls \<subseteq> set (config.languages cfg) \<Longrightarrow> language_loop ls cfg mc = (''new language'', ''red'')"
  by (induction ls) auto

lemma framework_loop_new_language:
  "framework_loop fws cfg (''new language'', col) = (''new language'', col)"
  by (induction fws) auto

lemma framework_loop_all_accepted:
  "set fws \<inter> set (excluded_frameworks cfg) = {} \<Longrightarrow> set fws \<subseteq> set (config.frameworks cfg)
   \<Longrightarrow> framework_loop fws cfg (m, col) = (m, col)"
  by (induction fws) auto

text \<open>
  An excluded framework anywhere in the list decides the verdict, unless a language is
  new: a new framework met before it is overwritten, one after it is never reached.
\<close>

lemma framework_loop_excluded:
  "f \<in> set fws \<Longrightarrow> f \<in> set (excluded_frameworks cfg) \<Longrightarrow> m \<noteq> ''new language''
   \<Longrightarrow> framework_loop fws cfg (m, col) = (''excluded framework'', ''red'')"
  by (induction fws arbitrary: m col) auto

text \<open>
  C1 (as the spec states it, refuted): with frameworks \<open>[excluded, new]\<close> and no new
  language the spec expects the verdict "new framework". The loop reaches the excluded
  framework first and breaks there, so the verdict is "excluded framework".
\<close>

theorem C1_counterexample:
  "set (project.languages (example_project [''python''] [''django'', ''svelte'']))
     \<subseteq> set (config.languages example_config)
   \<and> project.frameworks (example_project [''python''] [''django'', ''svelte'']) = [''django'', ''svelte'']
   \<and> ''django'' \<in> set (excluded_frameworks example_config)
   \<and> ''svelte'' \<notin> set (config.frameworks example_config)
   \<and> ''svelte'' \<notin> set (excluded_frameworks example_config)
   \<and> verdict (example_project [''python''] [''django'', ''svelte'']) example_config \<noteq> ''new framework''
   \<and> verdict (example_project [''python''] [''django'', ''svelte'']) example_config = ''excluded framework''"
  by (simp add: example_project_def example_config_def verdict_def classify_def)

text \<open>
  C1 (amended): for every project whose languages are all in the preferences and whose
  frameworks are exactly \<open>[f1, f2]\<close>, with \<open>f1\<close> excluded and \<open>f2\<close> neither accepted nor
  excluded, the verdict is "excluded framework" (in red), not "new framework".
\<close>

theorem C1_excluded_first_wins:
  assumes "set (project.languages p) \<subseteq> set (config.languages cfg)"
    and "project.frameworks p = [f1, f2]"
    and "f1 \<in> set (excluded_frameworks cfg)"
    and "f2 \<notin> set (config.frameworks cfg)"
    and "f2 \<notin> set (excluded_frameworks cfg)"
  shows "classify p cfg = (''excluded framework'', ''red'')
         \<and> verdict p cfg \<noteq> ''new framework''"
  using assms by (simp add: verdict_def classify_def language_loop_all_known)

theorem C1_excluded_first_wins_witness:
  "classify (example_project [''python''] [''django'', ''svelte'']) example_config
     = (''excluded framework'', ''red'')
   \<and> verdict (example_project [''python''] [''django'', ''svelte'']) example_config
     \<noteq> ''new framework''"
  using C1_excluded_first_wins
    [of "example_project [''python''] [''django'', ''svelte'']" example_config
        "''django''" "''svelte''"]
  by (simp add: example_project_def example_config_def)

text \<open>
  C2: if some language of the project is absent from the preferences, the verdict is
  "new language", whatever the frameworks of the project and of the preferences are.
\<close>

theorem C2_new_language:
  assumes "l \<in> set (project.languages p)" and "l \<notin> set (config.languages cfg)"
  shows "verdict p cfg = ''new language''"
proof -
  from assms have "\<not> set (project.languages p) \<subseteq> set (config.languages cfg)"
    by blast
  then have "language_loop (project.languages p) cfg (''good match'', ''green'')
             = (''new language'', ''red'')"
    by (rule language_loop_new)
  then show ?thesis
    by (simp add: verdict_def classify_def framework_loop_new_language)
qed

theorem C2_new_language_witness:
  "''rust'' \<in> set (project.languages (example_project [''python'', ''rust''] [''django'', ''flask'']))
   \<and> ''rust'' \<notin> set (config.languages example_config)
   \<and> verdict (example_project [''python'', ''rust''] [''django'', ''flask'']) example_config
       = ''new language''"
  using C2_new_language
    [of "''rust''" "example_project [''python'', ''rust''] [''django'', ''flask'']" example_config]
  by (simp add: example_project_def example_config_def)

text \<open>
  C3: if every language of the project is in the preferences, no framework of the
  project is excluded and every framework of the project is accepted, the verdict is
  "good match".
\<close>

theorem C3_good_match:
  assumes "set (project.languages p) \<subseteq> set (config.languages cfg)"
    and "set (project.frameworks p) \<inter> set (excluded_frameworks cfg) = {}"
    and "set (project.frameworks p) \<subseteq> set (config.frameworks cfg)"
  shows "verdict p cfg = ''good match''"
  using assms
  by (simp add: verdict_def classify_def language_loop_all_known framework_loop_all_accepted)

theorem C3_good_match_witness:
  "set (project.languages (example_project [''python''] [''flask''])) \<subseteq> set (config.languages example_config)
   \<and> set (project.frameworks (example_project [''python''] [''flask''])) \<inter> set (excluded_frameworks example_config) = {}
   \<and> set (project.frameworks (example_project [''python''] [''flask''])) \<subseteq> set (config.frameworks example_config)
   \<and> verdict (example_project [''python''] [''flask'']) example_config = ''good match''"
  using C3_good_match [of "example_project [''python''] [''flask'']" example_config]
  by (simp add: example_project_def example_config_def)

section \<open>Basic facts about the world\<close>

lemma fs_emit [simp]: "fs (emit w e) = fs w"
  and cwd_emit [simp]: "cwd (emit w e) = cwd w"
  and trace_emit [simp]: "trace (emit w e) = trace w @ [e]"
  by (simp_all add: emit_def)

lemma fs_call [simp]: "fs (call E args w) = run_git E args (cwd w) (fs w)"
  and cwd_call [simp]: "cwd (call E args w) = cwd w"
  and trace_call [simp]: "trace (call E args w) = trace w @ [Call args]"
  by (simp_all add: call_def)

lemma calls_append [simp]: "calls (xs @ ys) = calls xs @ calls ys"
  by (induction xs rule: calls.induct) simp_all

lemma read_file_Inr:
  "read_file E fsys p = Inr c \<longleftrightarrow> p \<notin> dirs fsys \<and> files fsys p = Some c \<and> decodes E c"
  by (auto simp: read_file_def split: option.splits)

section \<open>Properties of the file system\<close>

text \<open>
  The ancestors of a path, said without indices: the non-empty texts that the path
  continues with a slash.
\<close>

lemma ancestors_iff:
  "q \<in> set (ancestors p) \<longleftrightarrow> q \<noteq> [] \<and> (\<exists>r. p = q @ CHR ''/'' # r)"
proof
  assume "q \<in> set (ancestors p)"
  then obtain i where i: "1 \<le> i" "i < length p" "p ! i = CHR ''/''" "q = take i p"
    by (auto simp: ancestors_def)
  from i(2) have "p = take i p @ p ! i # drop (Suc i) p"
    by (simp add: id_take_nth_drop)
  with i show "q \<noteq> [] \<and> (\<exists>r. p = q @ CHR ''/'' # r)"
    by (metis One_nat_def Suc_le_eq take_eq_Nil length_greater_0_conv less_nat_zero_code list.size(3) not_less_zero)
next
  assume "q \<noteq> [] \<and> (\<exists>r. p = q @ CHR ''/'' # r)"
  then obtain r where r: "q \<noteq> []" "p = q @ CHR ''/'' # r" by blast
  then have "1 \<le> length q" "length q < length p" "p ! length q = CHR ''/''" "take (length q) p = q"
    by (simp_all add: Suc_le_eq)
  then show "q \<in> set (ancestors p)"
    unfolding ancestors_def by (auto simp: image_iff intro!: bexI [where x = "length q"])
qed

lemma ancestors_shorter: "q \<in> set (ancestors p) \<Longrightarrow> length q < length p"
  by (auto simp: ancestors_iff)

lemma makedirs_free:
  assumes "files fsys p = None"
    and "\<forall>q r. p = q @ CHR ''/'' # r \<and> q \<noteq> [] \<longrightarrow> files fsys q = None"
  shows "makedirs fsys p = Inr (if p \<in> dirs fsys then fsys else add_dirs fsys p)"
proof -
  have "\<not> list_ex (\<lambda>a. a \<notin> dirs fsys \<and> files fsys a \<noteq> None) (ancestors p)"
    using assms(2) by (auto simp: list_ex_iff ancestors_iff)
  with assms(1) show ?thesis by (simp add: makedirs_def)
qed

lemma dirs_add_dirs:
  "dirs (add_dirs fsys p) = dirs fsys \<union> {p} \<union> {q. q \<noteq> [] \<and> (\<exists>r. p = q @ CHR ''/'' # r)}"
  by (auto simp: add_dirs_def ancestors_iff)

lemma files_add_dirs [simp]: "files (add_dirs fsys p) = files fsys"
  by (simp add: add_dirs_def)

lemma makedirs_Inr:
  assumes "makedirs fsys p = Inr made"
  shows "files made = files fsys" and "p \<in> dirs made"
    and "dirs made = (if p \<in> dirs fsys then dirs fsys
                      else dirs fsys \<union> {p} \<union> {q. q \<noteq> [] \<and> (\<exists>r. p = q @ CHR ''/'' # r)})"
  using assms by (auto simp: makedirs_def dirs_add_dirs split: if_splits)


section \<open>Properties of the preference store\<close>














section \<open>Properties of \<open>list_repos\<close>\<close>

text \<open>
  C10: the first thing \<open>list_repos\<close> does is the catalog request; when the catalog was
  fetched and the preference file does not exist, it prints the instruction to run
  \<open>coderelay user-prefs\<close> and returns: nothing else is printed (no verdict), the file
  system is unchanged and the preference file still does not exist.
\<close>

theorem C10_list_repos_without_config:
  "(\<exists>rest. trace (snd (list_repos E w)) = trace w @ HttpGet catalog_url # rest)
   \<and> (fetched E = Some available_projects \<longrightarrow> \<not> path_exists (fs w) (config_path_of E) \<longrightarrow>
        list_repos E w =
          (None, w\<lparr>trace := trace w @
             [HttpGet catalog_url,
              Echo ''Please run `coderelay user-prefs` to configure your preferences.'']\<rparr>)
        \<and> fs (snd (list_repos E w)) = fs w
        \<and> \<not> path_exists (fs (snd (list_repos E w))) (config_path_of E))"
proof (intro conjI impI)
  have "trace (foldl (print_project cfg) v ps)
          = trace v @ map (\<lambda>p. Secho (name p @ '', '' @ desc p @ '' '' @ fst (classify p cfg))
                                 (Fg (snd (classify p cfg)))) ps" for cfg v ps
    by (induction ps arbitrary: v) (simp_all add: print_project_def)
  then have fold_trace: "\<exists>rest. trace (foldl (print_project cfg) v ps) = trace v @ rest" for cfg v ps
    by blast
  show "\<exists>rest. trace (snd (list_repos E w)) = trace w @ HttpGet catalog_url # rest"
  proof (cases "fetched E")
    case None
    then show ?thesis by (simp add: list_repos_def fetch_repos_def)
  next
    case (Some ps)
    show ?thesis
    proof (cases "path_exists (fs w) (config_path_of E)")
      case False
      with Some show ?thesis by (simp add: list_repos_def fetch_repos_def)
    next
      case True
      show ?thesis
      proof (cases "read_config E (fs w)")
        case (Inl e)
        with Some True show ?thesis by (simp add: list_repos_def fetch_repos_def)
      next
        case (Inr cfg)
        from fold_trace [of cfg "emit w (HttpGet catalog_url)" ps]
        obtain rest where "trace (foldl (print_project cfg) (emit w (HttpGet catalog_url)) ps)
                            = trace w @ HttpGet catalog_url # rest"
          by auto
        with Some True Inr show ?thesis by (simp add: list_repos_def fetch_repos_def)
      qed
    qed
  qed
next
  assume a: "fetched E = Some available_projects" "\<not> path_exists (fs w) (config_path_of E)"
  then show r: "list_repos E w =
          (None, w\<lparr>trace := trace w @
             [HttpGet catalog_url,
              Echo ''Please run `coderelay user-prefs` to configure your preferences.'']\<rparr>)"
    by (simp add: list_repos_def fetch_repos_def emit_def)
  show "fs (snd (list_repos E w)) = fs w" by (simp add: r)
  from a show "\<not> path_exists (fs (snd (list_repos E w))) (config_path_of E)" by (simp add: r)
qed

theorem C10_list_repos_without_config_witness:
  "fetched example_env = Some [example_project [''python''] []]
   \<and> \<not> path_exists (fs empty_world) (config_path_of example_env)
   \<and> list_repos example_env empty_world =
       (None, empty_world\<lparr>trace := trace empty_world @
          [HttpGet catalog_url,
           Echo ''Please run `coderelay user-prefs` to configure your preferences.'']\<rparr>)
   \<and> fs (snd (list_repos example_env empty_world)) = fs empty_world
   \<and> \<not> path_exists (fs (snd (list_repos example_env empty_world))) (config_path_of example_env)"
proof -
  have h1: "fetched example_env = Some [example_project [''python''] []]"
    by (simp add: example_env_def)
  have h2: "\<not> path_exists (fs empty_world) (config_path_of example_env)"
    by (simp add: empty_world_def path_exists_def)
  from C10_list_repos_without_config [of example_env empty_world "[example_project [''python''] []]"]
    h1 h2 show ?thesis by blast
qed

section \<open>Properties of \<open>start_project\<close>\<close>

lemma start_checks_decline:
  assumes "path_exists (fs w) (project_path_of E project_name)"
  shows "\<exists>r. start_checks E project_name False w = Inl r \<and> fs (snd r) = fs w
             \<and> calls (trace (snd r)) = calls (trace w)"
  using assms
  by (simp add: start_checks_def fetch_repos_def Let_def split: option.splits)

text \<open>
  C5: when the target directory of the project exists and the user declines the
  deletion, \<open>start_project\<close> ends with the file system as it was and without any
  subprocess call (no clone); when the catalog was fetched, git is installed and the
  project is known it returns normally after the prompt and "Aborting.".
\<close>

theorem C5_decline_delete:
  assumes "path_exists (fs w) (project_path_of E project_name)"
  shows "fs (snd (start_project E project_name False open_now w)) = fs w
         \<and> calls (trace (snd (start_project E project_name False open_now w))) = calls (trace w)
         \<and> (fetched E = Some available_projects \<and> which_git E
              \<and> find (\<lambda>p. name p = project_name) available_projects = Some p \<longrightarrow>
            start_project E project_name False open_now w =
              (None, w\<lparr>trace := trace w @
                 [HttpGet catalog_url,
                  Prompt (''Project at '' @ project_path_of E project_name
                            @ '' already exists. Delete it (y/n)''),
                  Echo ''Aborting.'']\<rparr>))"
proof -
  from start_checks_decline [OF assms] obtain r
    where r: "start_checks E project_name False w = Inl r" "fs (snd r) = fs w"
      "calls (trace (snd r)) = calls (trace w)"
    by blast
  then have "start_project E project_name False open_now w = r"
    by (simp add: start_project_def)
  moreover have "fetched E = Some available_projects \<and> which_git E
              \<and> find (\<lambda>p. name p = project_name) available_projects = Some p \<longrightarrow>
            start_project E project_name False open_now w =
              (None, w\<lparr>trace := trace w @
                 [HttpGet catalog_url,
                  Prompt (''Project at '' @ project_path_of E project_name
                            @ '' already exists. Delete it (y/n)''),
                  Echo ''Aborting.'']\<rparr>)"
    using assms
    by (simp add: start_project_def start_checks_def fetch_repos_def Let_def emit_def)
  ultimately show ?thesis using r by simp
qed

theorem C5_decline_delete_witness:
  "path_exists (fs workspace_world) (project_path_of example_env ''foo'')
   \<and> fetched example_env = Some [example_project [''python''] []]
   \<and> which_git example_env
   \<and> find (\<lambda>p. name p = ''foo'') [example_project [''python''] []]
       = Some (example_project [''python''] [])
   \<and> project_path_of example_env ''foo'' = ''/home/u/Documents/code-relay/foo''
   \<and> trace workspace_world = []
   \<and> fs (snd (start_project example_env ''foo'' False True workspace_world)) = fs workspace_world
   \<and> calls (trace (snd (start_project example_env ''foo'' False True workspace_world)))
       = calls (trace workspace_world)
   \<and> start_project example_env ''foo'' False True workspace_world =
       (None, workspace_world\<lparr>trace := trace workspace_world @
          [HttpGet catalog_url,
           Prompt (''Project at '' @ project_path_of example_env ''foo''
                     @ '' already exists. Delete it (y/n)''),
           Echo ''Aborting.'']\<rparr>)"
proof -
  have h1: "path_exists (fs workspace_world) (project_path_of example_env ''foo'')"
    by (simp add: workspace_world_def project_path_of_def example_env_def path_exists_def)
  have h2: "fetched example_env = Some [example_project [''python''] []]"
    and h3: "which_git example_env"
    and h4: "find (\<lambda>p. name p = ''foo'') [example_project [''python''] []]
               = Some (example_project [''python''] [])"
    and h5: "project_path_of example_env ''foo'' = ''/home/u/Documents/code-relay/foo''"
    and h6: "trace workspace_world = []"
    by (simp_all add: example_env_def example_project_def project_path_of_def workspace_world_def)
  from C5_decline_delete [OF h1, of True "[example_project [''python''] []]"
      "example_project [''python''] []"] h1 h2 h3 h4 h5 h6
  show ?thesis by blast
qed

lemma download_project_clone_raises:
  "clone_project E p project_path w = Inl e
   \<Longrightarrow> download_project E p project_name project_path open_now w = (Some e, w)"
  by (simp add: download_project_def)

lemma download_project_no_gitignore:
  assumes "clone_project E p project_path w = Inr w1"
    and "\<not> path_exists (fs w1) (project_path @ ''/.gitignore'')"
  shows "download_project E p project_name project_path open_now w = (Some FileNotFoundError, w1)"
  using assms
  by (auto simp: download_project_def update_gitignore_def read_file_def path_exists_def
           split: option.splits)

lemma clone_project_Inr:
  assumes "clone_project E p project_path w = Inr w1"
  shows "\<exists>made. makedirs (fs w) project_path = Inr made
           \<and> w1 = call E [''git'', ''clone'', git p, project_path] (w\<lparr>fs := made\<rparr>)"
  using assms by (auto simp: clone_project_def split: sum.splits)

text \<open>
  C9: when the checks of \<open>start_project\<close> pass, the target directory is made and there
  is no \<open>.gitignore\<close> in the workspace after the clone step, the command ends with
  \<open>FileNotFoundError\<close> right after the clone call: the world is the one the clone left,
  and \<open>coderelay.json\<close> is what the clone left there (the metadata is not written).
\<close>

theorem C9_missing_gitignore:
  assumes "start_checks E project_name delete w = Inr (p, w1)"
    and "clone_project E p (project_path_of E project_name) w1 = Inr w2"
    and "\<not> path_exists (fs w2) (project_path_of E project_name @ ''/.gitignore'')"
  shows "start_project E project_name delete open_now w = (Some FileNotFoundError, w2)
         \<and> trace (snd (start_project E project_name delete open_now w))
           = trace w1 @ [Call [''git'', ''clone'', git p, project_path_of E project_name]]
         \<and> (\<exists>made. makedirs (fs w1) (project_path_of E project_name) = Inr made
              \<and> fs (snd (start_project E project_name delete open_now w))
                = run_git E [''git'', ''clone'', git p, project_path_of E project_name] (cwd w1) made
              \<and> files (fs (snd (start_project E project_name delete open_now w)))
                  (project_path_of E project_name @ ''/coderelay.json'')
                = files (run_git E [''git'', ''clone'', git p, project_path_of E project_name]
                           (cwd w1) made)
                    (project_path_of E project_name @ ''/coderelay.json''))"
proof -
  have run: "start_project E project_name delete open_now w = (Some FileNotFoundError, w2)"
    using assms by (simp add: start_project_def download_project_no_gitignore)
  from clone_project_Inr [OF assms(2)] obtain made
    where made: "makedirs (fs w1) (project_path_of E project_name) = Inr made"
      and w2: "w2 = call E [''git'', ''clone'', git p, project_path_of E project_name] (w1\<lparr>fs := made\<rparr>)"
    by blast
  from w2 have "trace w2 = trace w1 @ [Call [''git'', ''clone'', git p, project_path_of E project_name]]"
    and "fs w2 = run_git E [''git'', ''clone'', git p, project_path_of E project_name] (cwd w1) made"
    by simp_all
  with run made show ?thesis by simp
qed

text \<open>An environment whose clone fails and leaves the target directory empty.\<close>

theorem C9_missing_gitignore_witness:
  "start_checks (example_env\<lparr>run_git := (\<lambda>args dir fsys. fsys)\<rparr>) ''foo'' False empty_world
     = Inr (example_project [''python''] [], emit empty_world (HttpGet catalog_url))
   \<and> clone_project (example_env\<lparr>run_git := (\<lambda>args dir fsys. fsys)\<rparr>)
        (example_project [''python''] [])
        (project_path_of (example_env\<lparr>run_git := (\<lambda>args dir fsys. fsys)\<rparr>) ''foo'')
        (emit empty_world (HttpGet catalog_url))
      = Inr (call (example_env\<lparr>run_git := (\<lambda>args dir fsys. fsys)\<rparr>)
               [''git'', ''clone'', git (example_project [''python''] []),
                project_path_of (example_env\<lparr>run_git := (\<lambda>args dir fsys. fsys)\<rparr>) ''foo'']
               ((emit empty_world (HttpGet catalog_url))
                  \<lparr>fs := add_dirs (fs empty_world) ''/home/u/Documents/code-relay/foo''\<rparr>))
   \<and> \<not> path_exists
         (fs (call (example_env\<lparr>run_git := (\<lambda>args dir fsys. fsys)\<rparr>)
               [''git'', ''clone'', git (example_project [''python''] []),
                project_path_of (example_env\<lparr>run_git := (\<lambda>args dir fsys. fsys)\<rparr>) ''foo'']
               ((emit empty_world (HttpGet catalog_url))
                  \<lparr>fs := add_dirs (fs empty_world) ''/home/u/Documents/code-relay/foo''\<rparr>)))
         (project_path_of (example_env\<lparr>run_git := (\<lambda>args dir fsys. fsys)\<rparr>) ''foo'' @ ''/.gitignore'')
   \<and> start_project (example_env\<lparr>run_git := (\<lambda>args dir fsys. fsys)\<rparr>) ''foo'' False True empty_world
       = (Some FileNotFoundError,
          call (example_env\<lparr>run_git := (\<lambda>args dir fsys. fsys)\<rparr>)
               [''git'', ''clone'', git (example_project [''python''] []),
                project_path_of (example_env\<lparr>run_git := (\<lambda>args dir fsys. fsys)\<rparr>) ''foo'']
               ((emit empty_world (HttpGet catalog_url))
                  \<lparr>fs := add_dirs (fs empty_world) ''/home/u/Documents/code-relay/foo''\<rparr>))
   \<and> files (fs (snd (start_project (example_env\<lparr>run_git := (\<lambda>args dir fsys. fsys)\<rparr>) ''foo'' False True empty_world)))
       ''/home/u/Documents/code-relay/foo/coderelay.json'' = None"
proof -
  let ?E = "example_env\<lparr>run_git := (\<lambda>args dir fsys. fsys)\<rparr>"
  let ?p = "example_project [''python''] []"
  let ?w1 = "emit empty_world (HttpGet catalog_url)"
  let ?w2 = "call ?E [''git'', ''clone'', git ?p, project_path_of ?E ''foo'']
               (?w1\<lparr>fs := add_dirs (fs empty_world) ''/home/u/Documents/code-relay/foo''\<rparr>)"
  have pp: "project_path_of ?E ''foo'' = ''/home/u/Documents/code-relay/foo''"
    by (simp add: project_path_of_def example_env_def)
  have h1: "start_checks ?E ''foo'' False empty_world = Inr (?p, ?w1)"
    by (simp add: start_checks_def fetch_repos_def example_env_def example_project_def
        project_path_of_def path_exists_def empty_world_def emit_def)
  have mk: "makedirs (fs empty_world) ''/home/u/Documents/code-relay/foo''
            = Inr (add_dirs (fs empty_world) ''/home/u/Documents/code-relay/foo'')"
    by (simp add: makedirs_free empty_world_def)
  have h2: "clone_project ?E ?p (project_path_of ?E ''foo'') ?w1 = Inr ?w2"
    unfolding pp by (simp add: clone_project_def mk)
  have fs2: "fs ?w2 = add_dirs (fs empty_world) ''/home/u/Documents/code-relay/foo''"
    by (simp add: example_env_def)
  have h3: "\<not> path_exists (fs ?w2) (project_path_of ?E ''foo'' @ ''/.gitignore'')"
    unfolding fs2 pp
    using ancestors_shorter [of "''/home/u/Documents/code-relay/foo/.gitignore''"
        "''/home/u/Documents/code-relay/foo''"]
    by (auto simp add: path_exists_def add_dirs_def empty_world_def)
  note r = C9_missing_gitignore [OF h1 h2 h3, of True]
  from r have r1: "start_project ?E ''foo'' False True empty_world = (Some FileNotFoundError, ?w2)"
    by (rule conjunct1)
  have r2: "files (fs (snd (start_project ?E ''foo'' False True empty_world)))
       ''/home/u/Documents/code-relay/foo/coderelay.json'' = None"
    unfolding r1 snd_conv fs2 by (simp add: add_dirs_def empty_world_def)
  show ?thesis
    by (rule conjI [OF h1 conjI [OF h2 conjI [OF h3 conjI [OF r1 r2]]]])
qed


section \<open>Properties of the workspace's ignore rule\<close>































section \<open>Properties of \<open>publish_changes\<close>\<close>

lemma explain_fork_frame [simp]:
  "fs (explain_fork project_config w) = fs w"
  "cwd (explain_fork project_config w) = cwd w"
  "calls (trace (explain_fork project_config w)) = calls (trace w)"
  by (simp_all add: explain_fork_def)

lemma stage_changes_effect:
  "cwd (stage_changes E project_path url w) = project_path"
  "calls (trace (stage_changes E project_path url w))
     = calls (trace w) @
       [[''git'', ''remote'', ''add'', ''fork'', url],
        [''git'', ''remote'', ''set-url'', ''fork'', url],
        [''git'', ''add'', ''.''],
        [''git'', ''diff'', ''--staged'', ''--name-only'']]"
  "fs (stage_changes E project_path url w)
     = run_git E [''git'', ''diff'', ''--staged'', ''--name-only''] project_path
        (run_git E [''git'', ''add'', ''.''] project_path
          (run_git E [''git'', ''remote'', ''set-url'', ''fork'', url] project_path
            (run_git E [''git'', ''remote'', ''add'', ''fork'', url] project_path (fs w))))"
  by (simp_all add: stage_changes_def Let_def)

lemma publish_changes_ready:
  assumes "path_exists (fs w) (project_path_of E project_name)" and "which_git E"
    and "read_file E (fs w) (project_path_of E project_name @ ''/coderelay.json'') = Inr text"
    and "load_project E text = Some project_config"
  shows "publish_changes E project_name url confirm w =
           (if \<not> confirm
            then (None, emit (emit (stage_changes E (project_path_of E project_name) url
                                      (explain_fork project_config w))
                                (Prompt ''Do these changes look correct? (y/n)''))
                          (Echo ''Aborting.''))
            else upload E project_config url
                   (emit (stage_changes E (project_path_of E project_name) url
                            (explain_fork project_config w))
                      (Prompt ''Do these changes look correct? (y/n)'')))"
proof -
  from assms(3) have "path_exists (fs w) (project_path_of E project_name @ ''/coderelay.json'')"
    by (auto simp: read_file_def path_exists_def split: if_splits option.splits)
  with assms show ?thesis
    by (simp add: publish_changes_def Let_def)
qed

lemma publish_changes_declined_calls:
  "calls (trace (snd (publish_changes E project_name url False w))) = calls (trace w)
   \<or> calls (trace (snd (publish_changes E project_name url False w)))
       = calls (trace w) @
         [[''git'', ''remote'', ''add'', ''fork'', url],
          [''git'', ''remote'', ''set-url'', ''fork'', url],
          [''git'', ''add'', ''.''],
          [''git'', ''diff'', ''--staged'', ''--name-only'']]"
  by (simp add: publish_changes_def Let_def stage_changes_effect split: sum.splits option.splits)

lemma workspace_world_ready:
  "path_exists (fs workspace_world) (project_path_of example_env ''foo'')"
  "which_git example_env"
  "read_file example_env (fs workspace_world) (project_path_of example_env ''foo'' @ ''/coderelay.json'') = Inr ''foo''"
  "load_project example_env ''foo'' = Some (example_project [''python''] [])"
proof -
  have "decodes example_env ''foo''" by code_simp
  then show "read_file example_env (fs workspace_world)
               (project_path_of example_env ''foo'' @ ''/coderelay.json'') = Inr ''foo''"
    by (simp add: read_file_Inr) (simp add: workspace_world_def project_path_of_def example_env_def)
qed (simp_all add: workspace_world_def project_path_of_def example_env_def path_exists_def)

text \<open>
  C7: when the user answers no to "Do these changes look correct?", \<open>publish_changes\<close>
  invokes neither the commit nor the push: whatever the state, the subprocess calls it
  adds are none, or exactly remote add, remote set-url, add and diff. When the workspace,
  git and the project config are there, it returns normally after "Aborting.", and the
  file system is the one the four git calls left (nothing is rolled back).
\<close>

theorem C7_declined_no_commit:
  "(calls (trace (snd (publish_changes E project_name url False w))) = calls (trace w)
    \<or> calls (trace (snd (publish_changes E project_name url False w)))
        = calls (trace w) @
          [[''git'', ''remote'', ''add'', ''fork'', url],
           [''git'', ''remote'', ''set-url'', ''fork'', url],
           [''git'', ''add'', ''.''],
           [''git'', ''diff'', ''--staged'', ''--name-only'']])
   \<and> (path_exists (fs w) (project_path_of E project_name) \<and> which_git E
        \<and> read_file E (fs w) (project_path_of E project_name @ ''/coderelay.json'') = Inr text
        \<and> load_project E text = Some project_config \<longrightarrow>
       fst (publish_changes E project_name url False w) = None
       \<and> last (trace (snd (publish_changes E project_name url False w))) = Echo ''Aborting.''
       \<and> calls (trace (snd (publish_changes E project_name url False w)))
           = calls (trace w) @
             [[''git'', ''remote'', ''add'', ''fork'', url],
              [''git'', ''remote'', ''set-url'', ''fork'', url],
              [''git'', ''add'', ''.''],
              [''git'', ''diff'', ''--staged'', ''--name-only'']]
       \<and> fs (snd (publish_changes E project_name url False w))
           = run_git E [''git'', ''diff'', ''--staged'', ''--name-only''] (project_path_of E project_name)
              (run_git E [''git'', ''add'', ''.''] (project_path_of E project_name)
                (run_git E [''git'', ''remote'', ''set-url'', ''fork'', url] (project_path_of E project_name)
                  (run_git E [''git'', ''remote'', ''add'', ''fork'', url] (project_path_of E project_name)
                     (fs w)))))"
proof (intro conjI impI)
  show "calls (trace (snd (publish_changes E project_name url False w))) = calls (trace w)
    \<or> calls (trace (snd (publish_changes E project_name url False w)))
        = calls (trace w) @
          [[''git'', ''remote'', ''add'', ''fork'', url],
           [''git'', ''remote'', ''set-url'', ''fork'', url],
           [''git'', ''add'', ''.''],
           [''git'', ''diff'', ''--staged'', ''--name-only'']]"
    by (rule publish_changes_declined_calls)
next
  assume "path_exists (fs w) (project_path_of E project_name) \<and> which_git E
        \<and> read_file E (fs w) (project_path_of E project_name @ ''/coderelay.json'') = Inr text
        \<and> load_project E text = Some project_config"
  then have run: "publish_changes E project_name url False w =
           (None, emit (emit (stage_changes E (project_path_of E project_name) url
                                      (explain_fork project_config w))
                                (Prompt ''Do these changes look correct? (y/n)''))
                          (Echo ''Aborting.''))"
    by (simp add: publish_changes_ready)
  show "fst (publish_changes E project_name url False w) = None"
    by (simp add: run)
  show "last (trace (snd (publish_changes E project_name url False w))) = Echo ''Aborting.''"
    by (simp add: run)
  show "calls (trace (snd (publish_changes E project_name url False w)))
           = calls (trace w) @
             [[''git'', ''remote'', ''add'', ''fork'', url],
              [''git'', ''remote'', ''set-url'', ''fork'', url],
              [''git'', ''add'', ''.''],
              [''git'', ''diff'', ''--staged'', ''--name-only'']]"
    by (simp add: run stage_changes_effect)
  show "fs (snd (publish_changes E project_name url False w))
           = run_git E [''git'', ''diff'', ''--staged'', ''--name-only''] (project_path_of E project_name)
              (run_git E [''git'', ''add'', ''.''] (project_path_of E project_name)
                (run_git E [''git'', ''remote'', ''set-url'', ''fork'', url] (project_path_of E project_name)
                  (run_git E [''git'', ''remote'', ''add'', ''fork'', url] (project_path_of E project_name)
                     (fs w))))"
    by (simp add: run stage_changes_effect)
qed

theorem C7_declined_no_commit_witness:
  "path_exists (fs workspace_world) (project_path_of example_env ''foo'')
   \<and> which_git example_env
   \<and> read_file example_env (fs workspace_world) (project_path_of example_env ''foo'' @ ''/coderelay.json'')
       = Inr ''foo''
   \<and> load_project example_env ''foo'' = Some (example_project [''python''] [])
   \<and> fst (publish_changes example_env ''foo'' ''https://github.com/me/foo'' False workspace_world)
       = None
   \<and> last (trace (snd (publish_changes example_env ''foo'' ''https://github.com/me/foo'' False
                          workspace_world)))
       = Echo ''Aborting.''
   \<and> calls (trace (snd (publish_changes example_env ''foo'' ''https://github.com/me/foo'' False
                           workspace_world)))
       = calls (trace workspace_world) @
         [[''git'', ''remote'', ''add'', ''fork'', ''https://github.com/me/foo''],
          [''git'', ''remote'', ''set-url'', ''fork'', ''https://github.com/me/foo''],
          [''git'', ''add'', ''.''],
          [''git'', ''diff'', ''--staged'', ''--name-only'']]"
proof -
  note h = workspace_world_ready
  from C7_declined_no_commit [of example_env "''foo''" "''https://github.com/me/foo''"
      workspace_world "''foo''" "example_project [''python''] []"] h
  show ?thesis by blast
qed

lemma split_on_before_sep:
  "sep \<notin> set a \<Longrightarrow> split_on sep (a @ sep # b) = a # split_on sep b"
  by (induction a) auto

lemma split_on_github_url:
  assumes "CHR ''/'' \<notin> set owner"
  shows "split_on (CHR ''/'') (''https://github.com/'' @ owner @ ''/'' @ repo)
         = ''https:'' # [] # ''github.com'' # owner # split_on (CHR ''/'') repo"
  using assms by (simp add: split_on_before_sep)

lemma upload_effect:
  assumes "3 < length (split_on (CHR ''/'') url)"
  shows "fst (upload E project_config url w) = None"
    and "last (trace (snd (upload E project_config url w)))
         = Echo (git project_config @ ''/compare/main...'' @ split_on (CHR ''/'') url ! 3 @ '':main'')"
    and "calls (trace (snd (upload E project_config url w)))
         = calls (trace w) @
           [[''git'', ''commit'', ''-m'', ''Code Relay'', ''-m'', task_desc project_config],
            [''git'', ''push'', ''fork'']]"
  using assms by (simp_all add: upload_def Let_def)

lemma upload_short_url:
  assumes "\<not> 3 < length (split_on (CHR ''/'') url)"
  shows "fst (upload E project_config url w) = Some IndexError"
    and "calls (trace (snd (upload E project_config url w)))
         = calls (trace w) @
           [[''git'', ''commit'', ''-m'', ''Code Relay'', ''-m'', task_desc project_config],
            [''git'', ''push'', ''fork'']]"
  using assms by (simp_all add: upload_def Let_def)

text \<open>
  C8: when \<open>publish_changes\<close> runs to its end (workspace, git and project config
  present, changes confirmed) and the fork URL split on \<open>/\<close> has a piece at index 3,
  the last line printed is \<open><git of the project config>/compare/main...<piece 3>:main\<close>;
  for a fork URL \<open>https://github.com/<owner>/<repo>\<close> that piece is \<open><owner>\<close>.
\<close>

theorem C8_comparison_url:
  "(path_exists (fs w) (project_path_of E project_name) \<and> which_git E
      \<and> read_file E (fs w) (project_path_of E project_name @ ''/coderelay.json'') = Inr text
      \<and> load_project E text = Some project_config
      \<and> 3 < length (split_on (CHR ''/'') url) \<longrightarrow>
    fst (publish_changes E project_name url True w) = None
    \<and> last (trace (snd (publish_changes E project_name url True w)))
        = Echo (git project_config @ ''/compare/main...'' @ split_on (CHR ''/'') url ! 3 @ '':main''))
   \<and> (CHR ''/'' \<notin> set owner \<longrightarrow>
        3 < length (split_on (CHR ''/'') (''https://github.com/'' @ owner @ ''/'' @ repo))
        \<and> split_on (CHR ''/'') (''https://github.com/'' @ owner @ ''/'' @ repo) ! 3 = owner)"
proof (intro conjI impI; (elim conjE)?)
  assume a: "path_exists (fs w) (project_path_of E project_name)" "which_git E"
      "read_file E (fs w) (project_path_of E project_name @ ''/coderelay.json'') = Inr text"
      "load_project E text = Some project_config"
      "3 < length (split_on (CHR ''/'') url)"
  then have run: "publish_changes E project_name url True w =
      upload E project_config url
        (emit (stage_changes E (project_path_of E project_name) url (explain_fork project_config w))
           (Prompt ''Do these changes look correct? (y/n)''))"
    by (simp add: publish_changes_ready)
  from a show "fst (publish_changes E project_name url True w) = None"
    unfolding run by (simp add: upload_effect)
  from a show "last (trace (snd (publish_changes E project_name url True w)))
        = Echo (git project_config @ ''/compare/main...'' @ split_on (CHR ''/'') url ! 3 @ '':main'')"
    unfolding run by (simp add: upload_effect)
next
  assume "CHR ''/'' \<notin> set owner"
  then have eq: "split_on (CHR ''/'') (''https://github.com/'' @ owner @ ''/'' @ repo)
                 = ''https:'' # [] # ''github.com'' # owner # split_on (CHR ''/'') repo"
    by (rule split_on_github_url)
  show "3 < length (split_on (CHR ''/'') (''https://github.com/'' @ owner @ ''/'' @ repo))"
    unfolding eq by simp
  show "split_on (CHR ''/'') (''https://github.com/'' @ owner @ ''/'' @ repo) ! 3 = owner"
    unfolding eq by simp
qed

theorem C8_comparison_url_witness:
  "path_exists (fs workspace_world) (project_path_of example_env ''foo'')
   \<and> which_git example_env
   \<and> read_file example_env (fs workspace_world) (project_path_of example_env ''foo'' @ ''/coderelay.json'')
       = Inr ''foo''
   \<and> load_project example_env ''foo'' = Some (example_project [''python''] [])
   \<and> CHR ''/'' \<notin> set ''me''
   \<and> 3 < length (split_on (CHR ''/'') (''https://github.com/'' @ ''me'' @ ''/'' @ ''foo''))
   \<and> split_on (CHR ''/'') (''https://github.com/'' @ ''me'' @ ''/'' @ ''foo'') ! 3 = ''me''
   \<and> fst (publish_changes example_env ''foo'' (''https://github.com/'' @ ''me'' @ ''/'' @ ''foo'')
            True workspace_world) = None
   \<and> last (trace (snd (publish_changes example_env ''foo''
                          (''https://github.com/'' @ ''me'' @ ''/'' @ ''foo'') True workspace_world)))
       = Echo (git (example_project [''python''] []) @ ''/compare/main...''
                 @ split_on (CHR ''/'') (''https://github.com/'' @ ''me'' @ ''/'' @ ''foo'') ! 3
                 @ '':main'')
   \<and> git (example_project [''python''] []) @ ''/compare/main...'' @ ''me'' @ '':main''
       = ''https://example.com/foo.git/compare/main...me:main''"
proof -
  note h = workspace_world_ready
  have o: "CHR ''/'' \<notin> set ''me''" by simp
  have g: "git (example_project [''python''] []) @ ''/compare/main...'' @ ''me'' @ '':main''
       = ''https://example.com/foo.git/compare/main...me:main''"
    by (simp add: example_project_def)
  from C8_comparison_url [of workspace_world example_env "''foo''" "''foo''"
      "example_project [''python''] []" "''https://github.com/'' @ ''me'' @ ''/'' @ ''foo''"
      "''me''" "''foo''"] h o g
  show ?thesis by blast
qed

end
